theory Spec2Isabelle
  imports Main
begin

section \<open>Python values\<close>

text \<open>
  A Python \<open>str\<close> is a sequence of Unicode code points; \<open>len\<close> counts code points.
  It is modelled as the list of its code points. \<open>str\<close> turns an ASCII literal of the
  source into that list.
\<close>

type_synonym pystr = "nat list"

definition str :: "string \<Rightarrow> pystr" where
  "str s = map of_char s"

text \<open>The exceptions that the modelled code can meet inside its \<open>try\<close> blocks.\<close>

datatype exn =
    AttributeError
  | ValueError
  | UnicodeEncodeError
  | UnicodeDecodeError
  | LibraryError

text \<open>
  \<open>s.isspace()\<close> for one code point, as CPython decides it: the characters of
  bidirectional type WS, B or S and of category Zs. \<open>not text.strip()\<close> holds exactly
  when every code point of \<open>text\<close> is one of them.
\<close>

definition py_isspace :: "nat \<Rightarrow> bool" where
  "py_isspace c =
     ((9 \<le> c \<and> c \<le> 13) \<or> (28 \<le> c \<and> c \<le> 32) \<or> c = 133 \<or> c = 160 \<or> c = 5760
      \<or> (8192 \<le> c \<and> c \<le> 8202) \<or> c = 8232 \<or> c = 8233 \<or> c = 8239 \<or> c = 8287
      \<or> c = 12288)"

definition strip_is_empty :: "pystr \<Rightarrow> bool" where
  "strip_is_empty s = list_all py_isspace s"

section \<open>The collaborators of \<open>etc.py\<close>\<close>

text \<open>
  \<open>etc.py\<close> reads module attributes of \<open>glovar\<close> that \<open>glovar.py\<close> does not define
  (the emoji set, the language sets, the normalisation switch, the locale bundle and the
  two substitution tables). They are taken as parameters. The substitution tables are
  reached through \<open>eval(f"glovar.{special}_dict")\<close>, which raises when the attribute is
  absent: that lookup is a sum.
\<close>

record glovar =
  emoji_set :: "pystr set"
  lang_bio :: "pystr set"
  lang_name :: "pystr set"
  lang_sticker :: "pystr set"
  lang_text :: "pystr set"
  lang_protect :: "pystr set"
  glovar_lang :: "pystr \<rightharpoonup> pystr"
  glovar_normalize :: bool
  spc_dict :: "exn + (pystr \<rightharpoonup> pystr)"
  spe_dict :: "exn + (pystr \<rightharpoonup> pystr)"

text \<open>
  The library calls and the Unicode tables behind the built-ins: \<open>langdetect.detect\<close>,
  \<open>TextBlob(text).detect_language()\<close>, \<open>guess_language\<close>, \<open>unicodedata.normalize("NFKC", _)\<close>,
  \<open>converter.convert\<close>, \<open>re.search(pattern, string) is not None\<close>, \<open>str.isprintable\<close> and the
  class \<open>\d\<close> of the regex engine. A call that raises returns \<open>Inl\<close>.
\<close>

record lib =
  detect :: "pystr \<Rightarrow> exn + pystr"
  detect_language :: "pystr \<Rightarrow> exn + pystr"
  guess_language :: "pystr \<Rightarrow> exn + pystr"
  normalize_NFKC :: "pystr \<Rightarrow> exn + pystr"
  convert :: "pystr \<Rightarrow> exn + pystr"
  re_search :: "pystr \<Rightarrow> pystr \<Rightarrow> exn + bool"
  isprintable :: "nat \<Rightarrow> bool"
  re_digit :: "nat \<Rightarrow> bool"

section \<open>Language detection\<close>

text \<open>The sentinel of \<open>guess_language\<close> for a text it cannot place, as a string value.\<close>

definition UNKNOWN :: pystr where
  "UNKNOWN = str ''UNKNOWN''"

text \<open>
  Modelled from the spec: the class of the sentinel belongs to the \<open>guess_language\<close>
  library, which is not part of the repository. The library answers with a language code
  or with its sentinel, an instance of a subclass of \<open>str\<close> that compares equal to
  \<open>"UNKNOWN"\<close> and is false in a boolean context; the specification has the sentinel
  treated as a non-match. So \<open>not result\<close>, for a value the guesser returned, holds of
  the empty string and of the sentinel.
\<close>

definition not_guess_result :: "pystr \<Rightarrow> bool" where
  "not_guess_result result = (result = [] \<or> result = UNKNOWN)"

definition get_lang_guess :: "glovar \<Rightarrow> lib \<Rightarrow> pystr \<Rightarrow> pystr" where
  "get_lang_guess g l text =
     (case guess_language l text of
        Inl e \<Rightarrow> []
      | Inr result \<Rightarrow>
          if not_guess_result result \<or> (result \<noteq> UNKNOWN \<and> result \<in> lang_protect g)
          then []
          else result)"

definition get_lang_langdetect :: "glovar \<Rightarrow> lib \<Rightarrow> pystr \<Rightarrow> pystr" where
  "get_lang_langdetect g l text =
     (case detect l text of
        Inl e \<Rightarrow> []
      | Inr result \<Rightarrow> if result = [] \<or> result \<in> lang_protect g then [] else result)"

definition get_lang_textblob :: "glovar \<Rightarrow> lib \<Rightarrow> pystr \<Rightarrow> pystr" where
  "get_lang_textblob g l text =
     (case detect_language l text of
        Inl e \<Rightarrow> []
      | Inr result \<Rightarrow> if result = [] \<or> result \<in> lang_protect g then [] else result)"

definition chinese_symbols :: pystr where
  "chinese_symbols =
     [65374, 65281, 12289, 65292, 12290, 65311, 65509, 8230, 215, 8212, 183, 65294, 65306,
      65307, 8220, 8221, 8216, 8217, 65288, 65289, 12296, 12297, 12298, 12299, 12300, 12301,
      12302, 12303, 12304, 12305, 12308, 12309]"

definition english_symbols :: pystr where
  "english_symbols =
     [96, 126, 33, 64, 35, 36, 37, 94, 38, 42, 40, 41, 45, 61, 95, 43, 91, 93, 92, 123, 125,
      124, 59, 39, 58, 34, 44, 46, 47, 60, 62, 63]"

definition special_symbols :: pystr where
  "special_symbols = [163]"

definition symbols :: pystr where
  "symbols = chinese_symbols @ english_symbols @ special_symbols"

text \<open>
  The first half of \<open>get_lang\<close> (the lines from \<open># Remove unnecessary strings\<close> to
  \<open># Detect\<close>): the text that reaches the detectors, or \<open>None\<close> where the function
  returns \<open>""\<close> before any detector runs.
\<close>

definition get_lang_text :: "glovar \<Rightarrow> lib \<Rightarrow> pystr \<Rightarrow> pystr option" where
  "get_lang_text g l text0 =
     (let text = filter (\<lambda>t. t \<notin> set symbols \<and> [t] \<notin> emoji_set g) text0 in
      if length text < 20 then
        (let text = filter (isprintable l) text in
         if strip_is_empty text then None
         else
           (let text = concat (replicate (20 div length text + 1) text) in
            if strip_is_empty text then None else Some text))
      else if strip_is_empty text then None else Some text)"

text \<open>
  \<open>get_lang\<close>. The three detector wrappers catch their own exceptions and the sets are
  parameters, so nothing in the body raises and the outer \<open>try\<close> never fires.
\<close>

definition get_lang :: "glovar \<Rightarrow> lib \<Rightarrow> pystr \<Rightarrow> pystr" where
  "get_lang g l text0 =
     (case get_lang_text g l text0 of
        None \<Rightarrow> []
      | Some text \<Rightarrow>
          (let result = get_lang_langdetect g l text;
               recheck = (if result \<noteq> [] then get_lang_textblob g l text else []);
               lang_default = lang_bio g \<union> lang_name g \<union> lang_sticker g \<union> lang_text g
           in
             if result \<noteq> [] \<and> recheck \<noteq> [] \<and> (result = recheck \<or> recheck \<notin> lang_default)
             then recheck
             else if result \<noteq> [] then []
             else get_lang_guess g l text))"

section \<open>Text normalisation\<close>

text \<open>\<open>"".join(d.get(t, t) for t in result)\<close>: the keys that can match are one-character strings.\<close>

definition substitute :: "(pystr \<rightharpoonup> pystr) \<Rightarrow> pystr \<Rightarrow> pystr" where
  "substitute d result = concat (map (\<lambda>t. case d [t] of None \<Rightarrow> [t] | Some v \<Rightarrow> v) result)"

text \<open>
  One round of the loop over \<open>["spc", "spe"]\<close>. The \<open>eval\<close> sits inside the generator, so
  it runs once per character: on an empty \<open>result\<close> it does not run and cannot raise.
  A failure carries the value \<open>result\<close> has at that moment.
\<close>

definition substitute_step :: "exn + (pystr \<rightharpoonup> pystr) \<Rightarrow> pystr \<Rightarrow> (exn \<times> pystr) + pystr" where
  "substitute_step table result =
     (if result = [] then Inr []
      else case table of Inl e \<Rightarrow> Inl (e, result) | Inr d \<Rightarrow> Inr (substitute d result))"

text \<open>\<open>result = f(result)\<close> for a call that may raise.\<close>

definition attempt :: "(pystr \<Rightarrow> exn + pystr) \<Rightarrow> pystr \<Rightarrow> (exn \<times> pystr) + pystr" where
  "attempt f result = (case f result of Inl e \<Rightarrow> Inl (e, result) | Inr r \<Rightarrow> Inr r)"

text \<open>The characters the \<open>pure\<close> regex keeps: the complement of its negated class.\<close>

definition pure_char :: "lib \<Rightarrow> nat \<Rightarrow> bool" where
  "pure_char l c =
     (re_digit l c \<or> (97 \<le> c \<and> c \<le> 122) \<or> (65 \<le> c \<and> c \<le> 90) \<or> (19968 \<le> c \<and> c \<le> 40869)
      \<or> c \<in> set [46, 44, 58, 39, 34, 63, 33, 126, 59, 40, 41, 12290, 65292, 65311, 65281,
                   65374, 64, 8220, 8221])"

text \<open>
  The body of the \<open>try\<close> block of \<open>t2t\<close> after the emptiness test: \<open>Inr\<close> the final
  \<open>result\<close>, or \<open>Inl\<close> the exception together with the value of \<open>result\<close> when it was
  raised.
\<close>

definition t2t_try :: "glovar \<Rightarrow> lib \<Rightarrow> pystr \<Rightarrow> bool \<Rightarrow> bool \<Rightarrow> bool \<Rightarrow> (exn \<times> pystr) + pystr" where
  "t2t_try g l text normal printable pure =
     (case (if glovar_normalize g \<and> normal then
              (case substitute_step (spc_dict g) text of
                 Inl x \<Rightarrow> Inl x
               | Inr result \<Rightarrow>
                   (case substitute_step (spe_dict g) result of
                      Inl x \<Rightarrow> Inl x
                    | Inr result \<Rightarrow> attempt (normalize_NFKC l) result))
            else Inr text) of
        Inl x \<Rightarrow> Inl x
      | Inr result \<Rightarrow>
          (case (if glovar_normalize g \<and> normal \<and> glovar_lang g (str ''Hans'') \<noteq> None
                 then attempt (convert l) result else Inr result) of
             Inl x \<Rightarrow> Inl x
           | Inr result \<Rightarrow>
               (let result = (if printable
                              then filter (\<lambda>t. isprintable l t \<or> t \<in> set [10, 13, 9]) result
                              else result);
                    result = (if pure then filter (pure_char l) result else result)
                in Inr result)))"

text \<open>\<open>t2t\<close>: the \<open>except\<close> branch logs and falls through to \<open>return result\<close>.\<close>

definition t2t :: "glovar \<Rightarrow> lib \<Rightarrow> pystr \<Rightarrow> bool \<Rightarrow> bool \<Rightarrow> bool \<Rightarrow> pystr" where
  "t2t g l text normal printable pure =
     (if text = [] then []
      else case t2t_try g l text normal printable pure of
             Inl (e, result) \<Rightarrow> result
           | Inr result \<Rightarrow> result)"

section \<open>Messages and entity text\<close>

record entity =
  en_type :: pystr
  en_offset :: nat
  en_length :: nat
  en_url :: "pystr option"

record button =
  btn_text :: "pystr option"
  btn_url :: "pystr option"

datatype reply_markup = InlineKeyboardMarkup "button option list list" | OtherMarkup

record message =
  m_text :: "pystr option"
  m_caption :: "pystr option"
  m_entities :: "entity list option"
  m_caption_entities :: "entity list option"
  m_reply_markup :: "reply_markup option"

text \<open>Truth value of an \<open>Optional[str]\<close> and of an optional list.\<close>

definition truthy :: "'a list option \<Rightarrow> bool" where
  "truthy x = (case x of None \<Rightarrow> False | Some s \<Rightarrow> s \<noteq> [])"

definition entity_urls :: "entity list \<Rightarrow> pystr" where
  "entity_urls ens =
     concat (map (\<lambda>en. if truthy (en_url en) then 10 # the (en_url en) else []) ens)"

definition button_texts :: "button option list list \<Rightarrow> pystr" where
  "button_texts rows =
     concat (map (\<lambda>b. case b of
                        None \<Rightarrow> []
                      | Some button \<Rightarrow>
                          (if truthy (btn_text button) then 10 # the (btn_text button) else [])
                          @ (if truthy (btn_url button) then 10 # the (btn_url button) else []))
                 (concat rows))"

definition get_text :: "glovar \<Rightarrow> lib \<Rightarrow> message option \<Rightarrow> bool \<Rightarrow> bool \<Rightarrow> pystr" where
  "get_text g l message normal printable =
     (case message of
        None \<Rightarrow> []
      | Some m \<Rightarrow>
          (let the_text = (if truthy (m_text m) then m_text m else m_caption m);
               entities = (if truthy (m_entities m) then m_entities m else m_caption_entities m);
               text = (if truthy the_text
                       then the the_text @ (if truthy entities then entity_urls (the entities) else [])
                       else []);
               text = (case m_reply_markup m of
                         Some (InlineKeyboardMarkup rows) \<Rightarrow> text @ button_texts rows
                       | _ \<Rightarrow> text)
           in if text \<noteq> [] then t2t g l text normal printable False else text))"

text \<open>
  \<open>str.encode("utf-16-le")\<close> as a list of bytes. A surrogate code point has no encoding
  and raises; a number above \<open>0x10FFFF\<close> is no code point of a Python string and is
  rejected the same way.
\<close>

definition utf_16_units :: "nat \<Rightarrow> nat list" where
  "utf_16_units c =
     (if c < 65536 then [c mod 256, c div 256]
      else (let v = c - 65536; hi = 55296 + v div 1024; lo = 56320 + v mod 1024
            in [hi mod 256, hi div 256, lo mod 256, lo div 256]))"

fun utf_16_le_encode :: "pystr \<Rightarrow> exn + nat list" where
  "utf_16_le_encode [] = Inr []"
| "utf_16_le_encode (c # cs) =
     (if (55296 \<le> c \<and> c \<le> 57343) \<or> 1114111 < c then Inl UnicodeEncodeError
      else case utf_16_le_encode cs of
             Inl e \<Rightarrow> Inl e
           | Inr bs \<Rightarrow> Inr (utf_16_units c @ bs))"

text \<open>
  \<open>bytes.decode("utf-16-le")\<close>, strict: a trailing odd byte, a low surrogate with no high
  one before it, and a high surrogate not followed by a low one all raise.
\<close>

fun utf_16_le_decode :: "nat list \<Rightarrow> exn + pystr" where
  "utf_16_le_decode [] = Inr []"
| "utf_16_le_decode [b] = Inl UnicodeDecodeError"
| "utf_16_le_decode (b0 # b1 # bs) =
     (let u = b0 + 256 * b1 in
      if u < 55296 \<or> 57343 < u then
        (case utf_16_le_decode bs of Inl e \<Rightarrow> Inl e | Inr cs \<Rightarrow> Inr (u # cs))
      else if u < 56320 then
        (case bs of
           b2 # b3 # bs' \<Rightarrow>
             (let v = b2 + 256 * b3 in
              if 56320 \<le> v \<and> v \<le> 57343 then
                (case utf_16_le_decode bs' of
                   Inl e \<Rightarrow> Inl e
                 | Inr cs \<Rightarrow> Inr ((65536 + (u - 55296) * 1024 + (v - 56320)) # cs))
              else Inl UnicodeDecodeError)
         | _ \<Rightarrow> Inl UnicodeDecodeError)
      else Inl UnicodeDecodeError)"

text \<open>\<open>xs[i:j]\<close> for indices that are not negative.\<close>

definition slice :: "'a list \<Rightarrow> nat \<Rightarrow> nat \<Rightarrow> 'a list" where
  "slice xs i j = take (j - i) (drop i xs)"

text \<open>
  The last four statements of the \<open>try\<close> block of \<open>get_entity_text\<close>: encode, cut the
  byte span of the entity, decode.
\<close>

definition entity_slice :: "pystr \<Rightarrow> nat \<Rightarrow> nat \<Rightarrow> exn + pystr" where
  "entity_slice text offset len =
     (case utf_16_le_encode text of
        Inl e \<Rightarrow> Inl e
      | Inr bytes \<Rightarrow> utf_16_le_decode (slice bytes (offset * 2) ((offset + len) * 2)))"

text \<open>
  \<open>get_entity_text\<close>: offsets of Telegram entities are never negative, so they are
  natural numbers here. \<open>result\<close> is still \<open>""\<close> when the encoder or the decoder raises.
\<close>

definition get_entity_text :: "glovar \<Rightarrow> lib \<Rightarrow> message option \<Rightarrow> entity option \<Rightarrow> pystr" where
  "get_entity_text g l message entity =
     (let text = get_text g l message False True in
      if text = [] then []
      else case entity of
             None \<Rightarrow> []
           | Some en \<Rightarrow>
               (case entity_slice text (en_offset en) (en_length en) of
                  Inl e \<Rightarrow> []
                | Inr result \<Rightarrow> result))"

section \<open>Report records\<close>

definition lang :: "glovar \<Rightarrow> pystr \<Rightarrow> pystr" where
  "lang g text = (case glovar_lang g text of None \<Rightarrow> text | Some v \<Rightarrow> v)"

text \<open>
  \<open>s.split(sep)\<close>: the pieces between the occurrences of \<open>sep\<close> found from left to
  right without overlap. An empty separator raises.
\<close>

fun py_split_from :: "pystr \<Rightarrow> pystr \<Rightarrow> pystr \<Rightarrow> pystr list" where
  "py_split_from sep piece [] = [piece]"
| "py_split_from sep piece (c # cs) =
     (if take (length sep) (c # cs) = sep
      then piece # py_split_from sep [] (drop (length sep - 1) cs)
      else py_split_from sep (piece @ [c]) cs)"

definition py_split :: "pystr \<Rightarrow> pystr \<Rightarrow> exn + pystr list" where
  "py_split s sep = (if sep = [] then Inl ValueError else Inr (py_split_from sep [] s))"

text \<open>
  The \<open>if\<close>/\<open>elif\<close> chain of \<open>get_report_record\<close> as a table in the order of the
  source: the key given to \<open>lang\<close> and the record type of the branch.
\<close>

definition record_labels :: "(string \<times> string) list" where
  "record_labels =
     [(''project'', ''project''), (''project_origin'', ''origin''), (''status'', ''status''),
      (''user_id'', ''uid''), (''level'', ''level''), (''rule'', ''rule''),
      (''message_type'', ''type''), (''message_game'', ''game''), (''message_lang'', ''lang''),
      (''message_len'', ''length''), (''message_freq'', ''freq''), (''user_score'', ''score''),
      (''user_bio'', ''bio''), (''user_name'', ''name''), (''from_name'', ''from''),
      (''contact'', ''contact''), (''more'', ''more'')]"

fun record_type_of :: "glovar \<Rightarrow> lib \<Rightarrow> pystr \<Rightarrow> (string \<times> string) list \<Rightarrow> exn + pystr" where
  "record_type_of g l r [] = Inr (str ''unknown'')"
| "record_type_of g l r ((label, record_type) # rest) =
     (case re_search l ([94] @ lang g (str label) @ lang g (str ''colon'')) r of
        Inl e \<Rightarrow> Inl e
      | Inr found \<Rightarrow> if found then Inr (str record_type) else record_type_of g l r rest)"

text \<open>One pass of the loop body: the key that is assigned and the value it gets.\<close>

definition record_line :: "glovar \<Rightarrow> lib \<Rightarrow> pystr \<Rightarrow> exn + (pystr \<times> pystr)" where
  "record_line g l r =
     (case record_type_of g l r record_labels of
        Inl e \<Rightarrow> Inl e
      | Inr record_type \<Rightarrow>
          (case py_split r (lang g (str ''colon'')) of
             Inl e \<Rightarrow> Inl e
           | Inr pieces \<Rightarrow> Inr (record_type, last pieces)))"

definition record_keys :: "string list" where
  "record_keys =
     [''project'', ''origin'', ''status'', ''uid'', ''level'', ''rule'', ''type'', ''game'',
      ''lang'', ''length'', ''freq'', ''score'', ''bio'', ''name'', ''from'', ''contact'',
      ''more'', ''unknown'']"

definition record_init :: "pystr \<rightharpoonup> pystr" where
  "record_init = map_of (map (\<lambda>k. (str k, [])) record_keys)"

text \<open>The \<open>for\<close> loop: an exception leaves it with the record as it stands.\<close>

fun record_loop :: "glovar \<Rightarrow> lib \<Rightarrow> (pystr \<rightharpoonup> pystr) \<Rightarrow> pystr list \<Rightarrow> (pystr \<rightharpoonup> pystr)" where
  "record_loop g l record [] = record"
| "record_loop g l record (r # rs) =
     (case record_line g l r of
        Inl e \<Rightarrow> record
      | Inr (record_type, v) \<Rightarrow> record_loop g l (record(record_type \<mapsto> v)) rs)"

definition get_report_record :: "glovar \<Rightarrow> lib \<Rightarrow> message \<Rightarrow> (pystr \<rightharpoonup> pystr)" where
  "get_report_record g l message =
     (if \<not> truthy (m_text message) then record_init
      else record_loop g l record_init (py_split_from [10] [] (the (m_text message))))"

section \<open>A sample deployment\<close>

text \<open>
  Concrete collaborators for running the functions on examples: a configuration with a
  chosen protected set and default set and the English labels \<open>Level\<close> and \<open>Status\<close>,
  and libraries whose three detectors answer with fixed values, whose normaliser and
  converter are the identity, whose regex search handles the literal patterns
  \<open>^label\<close>, and whose character tables cover ASCII and reject surrogates.
\<close>

definition sample_glovar :: "pystr set \<Rightarrow> pystr set \<Rightarrow> glovar" where
  "sample_glovar protect defaults =
     \<lparr>emoji_set = {[128512]}, lang_bio = defaults, lang_name = {}, lang_sticker = {},
      lang_text = {}, lang_protect = protect,
      glovar_lang = map_of [(str ''colon'', str '': ''), (str ''level'', str ''Level''),
                            (str ''status'', str ''Status''), (str ''Hans'', str ''Hans'')],
      glovar_normalize = True, spc_dict = Inr Map.empty, spe_dict = Inr Map.empty\<rparr>"

definition sample_lib :: "exn + pystr \<Rightarrow> exn + pystr \<Rightarrow> exn + pystr \<Rightarrow> lib" where
  "sample_lib primary recheck guess =
     \<lparr>detect = (\<lambda>text. primary), detect_language = (\<lambda>text. recheck),
      guess_language = (\<lambda>text. guess), normalize_NFKC = Inr, convert = Inr,
      re_search = (\<lambda>pattern s. Inr (take (length pattern - 1) s = tl pattern)),
      isprintable = (\<lambda>c. 32 \<le> c \<and> c < 127 \<or> 160 < c \<and> (c < 55296 \<or> 57343 < c)),
      re_digit = (\<lambda>c. 48 \<le> c \<and> c \<le> 57)\<rparr>"

definition sample_message :: "pystr \<Rightarrow> message" where
  "sample_message t =
     \<lparr>m_text = Some t, m_caption = None, m_entities = None, m_caption_entities = None,
      m_reply_markup = None\<rparr>"

text \<open>The number of UTF-16 code units of a string: the unit in which entities are measured.\<close>

definition utf_16_length :: "pystr \<Rightarrow> nat" where
  "utf_16_length s = sum_list (map (\<lambda>c. if c < 65536 then 1 else 2) s)"

text \<open>The assignments \<open>record[record_type] = value\<close> that the loop performs, in order.\<close>

fun record_entries :: "glovar \<Rightarrow> lib \<Rightarrow> pystr list \<Rightarrow> (pystr \<times> pystr) list" where
  "record_entries g l [] = []"
| "record_entries g l (r # rs) =
     (case record_line g l r of Inl e \<Rightarrow> [] | Inr kv \<Rightarrow> kv # record_entries g l rs)"

section \<open>Properties of the language detector\<close>

text \<open>
  Unfolding sets for running the functions on the sample deployment.
\<close>

lemma list_all_tiled: "list_all P (concat (replicate k p)) = (k = 0 \<or> list_all P p)"
  by (induction k) auto

lemmas sample_defs = sample_glovar_def sample_lib_def sample_message_def str_def UNKNOWN_def

lemmas get_lang_defs = get_lang_def get_lang_text_def get_lang_guess_def get_lang_langdetect_def
  not_guess_result_def
  get_lang_textblob_def symbols_def chinese_symbols_def english_symbols_def special_symbols_def
  strip_is_empty_def py_isspace_def Let_def list_all_tiled

lemmas t2t_defs = t2t_def t2t_try_def substitute_step_def attempt_def substitute_def Let_def

lemmas record_defs = get_report_record_def record_line_def py_split_def lang_def
  record_labels_def record_keys_def record_init_def truthy_def

lemma UNKNOWN_not_empty: "UNKNOWN \<noteq> []"
  by (simp add: UNKNOWN_def str_def)

lemma get_lang_langdetect_cases:
  "get_lang_langdetect g l t = [] \<or> get_lang_langdetect g l t \<notin> lang_protect g"
  by (simp add: get_lang_langdetect_def split: sum.splits)

lemma get_lang_textblob_cases:
  "get_lang_textblob g l t = [] \<or> get_lang_textblob g l t \<notin> lang_protect g"
  by (simp add: get_lang_textblob_def split: sum.splits)

lemma get_lang_guess_cases:
  "get_lang_guess g l t = [] \<or> get_lang_guess g l t \<notin> lang_protect g"
  by (auto simp: get_lang_guess_def not_guess_result_def split: sum.splits)

text \<open>
  \<^bold>\<open>C1\<close>. For every text, protected set and default set, \<open>get_lang\<close> returns the empty
  string or a non-empty code that is not a member of the protected set, on every path
  of the cascade: the cross-check result after a primary result, and the answer of the
  rule-based guesser in the fallback.
\<close>

theorem get_lang_never_protected:
  "get_lang g l text = []
   \<or> (get_lang g l text \<noteq> [] \<and> get_lang g l text \<notin> lang_protect g)"
proof (cases "get_lang_text g l text")
  case None
  then show ?thesis by (simp add: get_lang_def)
next
  case (Some t)
  show ?thesis
  proof (cases "get_lang_langdetect g l t = []")
    case True
    with Some have "get_lang g l text = get_lang_guess g l t"
      by (simp add: get_lang_def)
    with get_lang_guess_cases [of g l t] show ?thesis by auto
  next
    case False
    with Some get_lang_textblob_cases [of g l t] show ?thesis
      by (auto simp: get_lang_def Let_def)
  qed
qed

text \<open>
  The theorem on a run where \<open>"UNKNOWN"\<close> and \<open>en\<close> are protected and both statistical
  detectors answer \<open>fr\<close>: the result is \<open>fr\<close>, outside the protected set.
\<close>

theorem get_lang_never_protected_witness:
  "get_lang (sample_glovar {UNKNOWN, str ''en''} {})
     (sample_lib (Inr (str ''fr'')) (Inr (str ''fr'')) (Inr UNKNOWN)) (str ''hi'') \<noteq> []
   \<and> get_lang (sample_glovar {UNKNOWN, str ''en''} {})
       (sample_lib (Inr (str ''fr'')) (Inr (str ''fr'')) (Inr UNKNOWN)) (str ''hi'')
     \<notin> lang_protect (sample_glovar {UNKNOWN, str ''en''} {})"
proof -
  have ne: "get_lang (sample_glovar {UNKNOWN, str ''en''} {})
              (sample_lib (Inr (str ''fr'')) (Inr (str ''fr'')) (Inr UNKNOWN)) (str ''hi'') \<noteq> []"
    by (simp add: get_lang_defs sample_defs)
  show ?thesis
    using ne get_lang_never_protected
                [of "sample_glovar {UNKNOWN, str ''en''} {}"
                    "sample_lib (Inr (str ''fr'')) (Inr (str ''fr'')) (Inr UNKNOWN)" "str ''hi''"]
    by blast
qed

text \<open>
  \<^bold>\<open>C2\<close>. In the fallback step, taken when the primary detector produced no usable
  result, the sentinel of the guesser is a non-match: \<open>get_lang\<close> does not return it, and
  a guesser result that is a member of the protected set is discarded. Precisely,
  \<open>get_lang\<close> returns the empty string when the guesser raises, answers with the sentinel
  or answers with a protected code, and the guesser's answer otherwise.
\<close>

theorem get_lang_fallback:
  assumes "get_lang_text g l text = Some t" and "get_lang_langdetect g l t = []"
  shows "get_lang g l text \<noteq> UNKNOWN
         \<and> get_lang g l text =
             (case guess_language l t of
                Inl e \<Rightarrow> []
              | Inr r \<Rightarrow> if r = UNKNOWN \<or> r \<in> lang_protect g then [] else r)"
  using assms UNKNOWN_not_empty
  by (auto simp: get_lang_def get_lang_guess_def not_guess_result_def split: sum.splits)

text \<open>
  The theorem on two runs in which the primary detector raises: the guesser answers
  with its sentinel, and the guesser answers with the protected code \<open>en\<close>. Both give
  the empty string.
\<close>

theorem get_lang_fallback_witness:
  "get_lang (sample_glovar {str ''en''} {}) (sample_lib (Inl LibraryError) (Inr []) (Inr UNKNOWN))
     (str ''0123456789 0123456789'') = []
   \<and> get_lang (sample_glovar {str ''en''} {})
       (sample_lib (Inl LibraryError) (Inr []) (Inr (str ''en'')))
       (str ''0123456789 0123456789'') = []"
proof -
  have t: "get_lang_text (sample_glovar {str ''en''} {})
             (sample_lib (Inl LibraryError) (Inr []) guess)
             (str ''0123456789 0123456789'') = Some (str ''0123456789 0123456789'')" for guess
    by (simp add: get_lang_defs sample_defs)
  have p: "get_lang_langdetect (sample_glovar {str ''en''} {})
             (sample_lib (Inl LibraryError) (Inr []) guess)
             (str ''0123456789 0123456789'') = []" for guess
    by (simp add: get_lang_defs sample_defs)
  show ?thesis
    using get_lang_fallback [OF t p, of "Inr UNKNOWN"]
          get_lang_fallback [OF t p, of "Inr (str ''en'')"]
    by (simp add: sample_defs)
qed

text \<open>
  \<^bold>\<open>C3\<close>. When the primary detector has a non-empty result on the text that reaches
  the detectors, \<open>get_lang\<close> returns the cross-check result if that is non-empty and
  either equals the primary result or lies outside the default set, and the empty string
  in every other case, an empty cross-check result included.
\<close>

theorem get_lang_reconcile:
  assumes "get_lang_text g l text = Some t" and "get_lang_langdetect g l t \<noteq> []"
  shows "get_lang g l text =
           (if get_lang_textblob g l t \<noteq> []
               \<and> (get_lang_textblob g l t = get_lang_langdetect g l t
                    \<or> get_lang_textblob g l t \<notin> lang_bio g \<union> lang_name g \<union> lang_sticker g \<union> lang_text g)
            then get_lang_textblob g l t else [])"
  using assms by (auto simp: get_lang_def Let_def)


text \<open>
  The two scenarios of the specification: primary \<open>en\<close>, cross-check \<open>fr\<close>, both
  default, gives \<open>""\<close>; primary and cross-check \<open>en\<close> gives \<open>en\<close>.
\<close>

theorem get_lang_reconcile_witness:
  "get_lang (sample_glovar {} {str ''en'', str ''fr''})
     (sample_lib (Inr (str ''en'')) (Inr (str ''fr'')) (Inr []))
     (str ''0123456789 0123456789'') = []
   \<and> get_lang (sample_glovar {} {str ''en''})
     (sample_lib (Inr (str ''en'')) (Inr (str ''en'')) (Inr []))
     (str ''0123456789 0123456789'') = str ''en''"
proof -
  have t: "get_lang_text (sample_glovar {} d) (sample_lib (Inr (str ''en'')) r (Inr []))
             (str ''0123456789 0123456789'') = Some (str ''0123456789 0123456789'')" for d r
    by (simp add: get_lang_defs sample_defs)
  have p: "get_lang_langdetect (sample_glovar {} d) (sample_lib (Inr (str ''en'')) r (Inr []))
             (str ''0123456789 0123456789'') \<noteq> []" for d r
    by (simp add: get_lang_defs sample_defs)
  show ?thesis
    using get_lang_reconcile [OF t p, of "{str ''en'', str ''fr''}" "Inr (str ''fr'')"]
          get_lang_reconcile [OF t p, of "{str ''en''}" "Inr (str ''en'')"]
    by (simp add: get_lang_defs sample_defs)
qed

lemma strip_is_empty_tiled:
  "strip_is_empty (concat (replicate (Suc k) p)) = strip_is_empty p"
  by (induction k) (auto simp: strip_is_empty_def)

lemma tiles_count:
  fixes n :: nat
  assumes n: "0 < n"
  shows "20 div n + 1 = (20 + n - 1) div n + (if n dvd 20 then 1 else 0)"
proof (cases "n dvd 20")
  case True
  have nz: "n \<noteq> 0" using n by simp
  from True obtain k where k: "20 = n * k" by (auto simp: dvd_def)
  have "(20 + n - 1) div n = (n - 1 + k * n) div n" using n k by (simp add: mult.commute)
  also have "\<dots> = k + (n - 1) div n" by (rule div_mult_self1 [OF nz])
  also have "\<dots> = k" using n by simp
  finally have "(20 + n - 1) div n = k" .
  moreover have "20 div n = k"
  proof -
    have "20 div n = (n * k) div n" using k by simp
    also have "\<dots> = k" using nz by simp
    finally show ?thesis .
  qed
  ultimately show ?thesis using True by simp
next
  case False
  have nz: "n \<noteq> 0" using n by simp
  define q where "q = 20 div n"
  define r where "r = 20 mod n"
  have r: "0 < r" "r < n" using False n by (auto simp: r_def dvd_eq_mod_eq_0)
  have "20 = q * n + r" by (simp add: q_def r_def)
  then have "20 + n - 1 = (r - 1) + (q + 1) * n" using r by simp
  then have "(20 + n - 1) div n = (r - 1 + (q + 1) * n) div n" by (rule arg_cong)
  also have "\<dots> = (q + 1) + (r - 1) div n" by (rule div_mult_self1 [OF nz])
  also have "\<dots> = q + 1" using r by simp
  finally show ?thesis using False by (simp add: q_def)
qed

lemma len_tiled: "length (concat (replicate k p)) = k * length p"
  by (induction k) simp_all

lemma more_than_20: fixes n :: nat assumes "0 < n" shows "20 < (20 div n + 1) * n"
proof -
  have "20 = 20 div n * n + 20 mod n" by simp
  moreover have "20 mod n < n" using assms by simp
  ultimately have "20 < 20 div n * n + n" by linarith
  then show ?thesis by simp
qed

text \<open>
  \<^bold>\<open>C4\<close> (as amended). Let \<open>s\<close> be the text without symbols and emoji and \<open>p\<close> the
  printable characters of \<open>s\<close>. If \<open>s\<close> has fewer than 20 characters and \<open>p\<close> is not
  whitespace only, the text that reaches the detectors is \<open>p\<close> tiled
  \<open>20 // len(p) + 1\<close> times: that is \<open>ceil(20 / len(p))\<close> times when \<open>len(p)\<close> does not
  divide 20 and one time more when it does, and always more than 20 characters. If \<open>s\<close>
  has at least 20 characters and is not whitespace only, the tiling does not run and
  \<open>s\<close> itself reaches the detectors. A text that is whitespace only at that point
  reaches no detector.
\<close>

theorem get_lang_text_tiling:
  fixes g l text0
  defines "s \<equiv> filter (\<lambda>t. t \<notin> set symbols \<and> [t] \<notin> emoji_set g) text0"
  defines "p \<equiv> filter (isprintable l) s"
  shows "(length s < 20 \<and> \<not> strip_is_empty p \<longrightarrow>
            get_lang_text g l text0 =
              Some (concat (replicate (20 div length p + 1) p))
            \<and> 20 div length p + 1
                = (20 + length p - 1) div length p + (if length p dvd 20 then 1 else 0)
            \<and> 20 < length (concat (replicate (20 div length p + 1) p)))
         \<and> (20 \<le> length s \<and> \<not> strip_is_empty s \<longrightarrow> get_lang_text g l text0 = Some s)
         \<and> ((length s < 20 \<and> strip_is_empty p) \<or> (20 \<le> length s \<and> strip_is_empty s) \<longrightarrow>
              get_lang_text g l text0 = None)"
proof -
  have A: "get_lang_text g l text0 = Some (concat (replicate (20 div length p + 1) p))"
    if "length s < 20" "\<not> strip_is_empty p"
    using that strip_is_empty_tiled [of "20 div length p" p]
    by (simp add: get_lang_text_def s_def [symmetric] p_def [symmetric] Let_def)
  have B: "20 div length p + 1
             = (20 + length p - 1) div length p + (if length p dvd 20 then 1 else 0)"
    if "\<not> strip_is_empty p"
  proof -
    from that have "p \<noteq> []" by (auto simp: strip_is_empty_def)
    then show ?thesis using tiles_count [of "length p"] by simp
  qed
  have C: "20 < length (concat (replicate (20 div length p + 1) p))"
    if "\<not> strip_is_empty p"
  proof -
    from that have n: "0 < length p" by (auto simp: strip_is_empty_def)
    have "length (concat (replicate (20 div length p + 1) p)) = (20 div length p + 1) * length p"
      by (rule len_tiled)
    moreover have "20 < (20 div length p + 1) * length p"
      using n by (rule more_than_20)
    ultimately show ?thesis by simp
  qed
  have D: "get_lang_text g l text0 = Some s" if "20 \<le> length s" "\<not> strip_is_empty s"
    using that by (simp add: get_lang_text_def s_def [symmetric] Let_def)
  have E: "get_lang_text g l text0 = None"
    if "(length s < 20 \<and> strip_is_empty p) \<or> (20 \<le> length s \<and> strip_is_empty s)"
    using that by (auto simp: get_lang_text_def s_def [symmetric] p_def [symmetric] Let_def)
  from A B C D E show ?thesis by blast
qed


text \<open>
  A three-character text is tiled 7 times; a text of 21 characters is left alone.
\<close>

theorem get_lang_text_tiling_witness:
  "get_lang_text (sample_glovar {} {}) (sample_lib (Inr []) (Inr []) (Inr [])) (str ''abc!'')
     = Some (concat (replicate 7 (str ''abc'')))
   \<and> get_lang_text (sample_glovar {} {}) (sample_lib (Inr []) (Inr []) (Inr []))
       (str ''0123456789 0123456789'') = Some (str ''0123456789 0123456789'')"
  using get_lang_text_tiling
          [of "sample_glovar {} {}" "str ''abc!''" "sample_lib (Inr []) (Inr []) (Inr [])"]
        get_lang_text_tiling
          [of "sample_glovar {} {}" "str ''0123456789 0123456789''"
              "sample_lib (Inr []) (Inr []) (Inr [])"]
  by (simp add: symbols_def chinese_symbols_def english_symbols_def special_symbols_def
        strip_is_empty_def py_isspace_def sample_defs list_all_tiled)

text \<open>
  The claim as first stated fails: the one-character text \<open>a\<close> is tiled 21 times,
  not \<open>ceil(20 / 1) = 20\<close> times.
\<close>

theorem get_lang_text_ceil_counterexample:
  "length (filter (\<lambda>t. t \<notin> set symbols \<and> [t] \<notin> emoji_set (sample_glovar {} {})) (str ''a'')) < 20
   \<and> filter (isprintable (sample_lib (Inr []) (Inr []) (Inr [])))
        (filter (\<lambda>t. t \<notin> set symbols \<and> [t] \<notin> emoji_set (sample_glovar {} {})) (str ''a''))
      = str ''a''
   \<and> get_lang_text (sample_glovar {} {}) (sample_lib (Inr []) (Inr []) (Inr [])) (str ''a'')
      \<noteq> Some (concat (replicate ((20 + length (str ''a'') - 1) div length (str ''a'')) (str ''a'')))"
proof -
  have "length (concat (replicate 21 [97::nat])) \<noteq> length (concat (replicate 20 [97::nat]))"
    by (simp only: len_tiled) simp
  then have "concat (replicate 21 [97::nat]) \<noteq> concat (replicate 20 [97::nat])"
    by (rule contrapos_nn) simp
  then show ?thesis
    by (simp add: get_lang_defs sample_defs)
qed

section \<open>Properties of the normaliser\<close>

lemma substitute_Nil: "substitute d [] = []"
  by (simp add: substitute_def)

text \<open>
  \<^bold>\<open>C5\<close> (as amended). For the empty input string and every combination of the flags,
  \<open>t2t\<close> returns the empty string.
\<close>

theorem t2t_empty_input: "t2t g l [] normal printable pure = []"
  by (simp add: t2t_def)


text \<open>
  The theorem with all flags set.
\<close>

theorem t2t_empty_input_witness:
  "t2t (sample_glovar {} {}) (sample_lib (Inr []) (Inr []) (Inr [])) [] True True True = []"
  by (rule t2t_empty_input)

text \<open>
  The claim as first stated fails: a single space is whitespace only, and \<open>t2t\<close>
  returns it unchanged with all flags off, and also with \<open>normal\<close> and \<open>printable\<close> on.
\<close>

theorem t2t_whitespace_counterexample:
  "strip_is_empty (str '' '')
   \<and> t2t (sample_glovar {} {}) (sample_lib (Inr []) (Inr []) (Inr [])) (str '' '') False False False
       \<noteq> []
   \<and> t2t (sample_glovar {} {}) (sample_lib (Inr []) (Inr []) (Inr [])) (str '' '') True True False
       \<noteq> []"
  by (simp add: t2t_defs sample_defs strip_is_empty_def py_isspace_def)

text \<open>
  \<^bold>\<open>C7\<close> (as amended). \<open>t2t\<close> is total, and when a step of the normalisation
  raises it returns the value the text had before that step: the input when the first
  substitution table cannot be read, the once-substituted text when the second cannot,
  the substituted text when the Unicode composition raises, and the composed text when
  the script conversion raises.
\<close>

theorem t2t_failure_keeps_result:
  assumes "text \<noteq> []" and "glovar_normalize g" and "normal"
  shows "(spc_dict g = Inl e \<longrightarrow> t2t g l text normal printable pure = text)
       \<and> (spc_dict g = Inr d1 \<and> substitute d1 text \<noteq> [] \<and> spe_dict g = Inl e \<longrightarrow>
            t2t g l text normal printable pure = substitute d1 text)
       \<and> (spc_dict g = Inr d1 \<and> spe_dict g = Inr d2
            \<and> normalize_NFKC l (substitute d2 (substitute d1 text)) = Inl e \<longrightarrow>
            t2t g l text normal printable pure = substitute d2 (substitute d1 text))
       \<and> (spc_dict g = Inr d1 \<and> spe_dict g = Inr d2
            \<and> normalize_NFKC l (substitute d2 (substitute d1 text)) = Inr r
            \<and> glovar_lang g (str ''Hans'') \<noteq> None \<and> convert l r = Inl e \<longrightarrow>
            t2t g l text normal printable pure = r)"
proof (cases "substitute d1 text = []")
  case True
  with assms show ?thesis
    by (auto simp: t2t_def t2t_try_def substitute_step_def attempt_def substitute_Nil)
next
  case False
  with assms show ?thesis
    by (auto simp: t2t_def t2t_try_def substitute_step_def attempt_def)
qed


text \<open>
  A run where the composition turns the full-width \<open>A\<close> into \<open>A\<close> and the script
  conversion then raises: the composed text is returned.
\<close>

theorem t2t_failure_keeps_result_witness:
  "t2t (sample_glovar {} {})
     ((sample_lib (Inr []) (Inr []) (Inr []))
        \<lparr>normalize_NFKC := \<lambda>s. Inr (map (\<lambda>c. if c = 65313 then 65 else c) s),
         convert := \<lambda>s. Inl LibraryError\<rparr>)
     [65313, 98] True True True = [65, 98]"
proof -
  let ?g = "sample_glovar {} {}"
  let ?l = "(sample_lib (Inr []) (Inr []) (Inr []))
        \<lparr>normalize_NFKC := \<lambda>s. Inr (map (\<lambda>c. if c = 65313 then 65 else c) s),
         convert := \<lambda>s. Inl LibraryError\<rparr>"
  have a: "[65313, 98::nat] \<noteq> []" by simp
  have b: "glovar_normalize ?g" by (simp add: sample_defs)
  have c: "True" by simp
  show ?thesis
    using t2t_failure_keeps_result [OF a b c, of LibraryError ?l True True Map.empty Map.empty "[65, 98]"]
    by (simp add: sample_defs substitute_def)
qed

text \<open>
  The claim as first stated fails: when the script conversion raises, \<open>t2t\<close> returns
  the text \<open>abc\<close>, not the empty string.
\<close>

theorem t2t_failure_not_empty_counterexample:
  "convert ((sample_lib (Inr []) (Inr []) (Inr []))\<lparr>convert := \<lambda>s. Inl LibraryError\<rparr>) (str ''abc'')
     = Inl LibraryError
   \<and> t2t (sample_glovar {} {}) ((sample_lib (Inr []) (Inr []) (Inr []))\<lparr>convert := \<lambda>s. Inl LibraryError\<rparr>)
       (str ''abc'') True True True = str ''abc''"
  by (simp add: t2t_defs sample_defs)

text \<open>
  \<^bold>\<open>C10\<close>. With \<open>normal\<close>, \<open>printable\<close> and \<open>pure\<close> all false, \<open>t2t\<close> returns its input
  unchanged, whatever the global switch, the locale and the libraries are.
\<close>

theorem t2t_flags_off_identity: "t2t g l text False False False = text"
  by (simp add: t2t_def t2t_try_def)


text \<open>
  The theorem on a text with a leading space and a trailing NUL.
\<close>

theorem t2t_flags_off_identity_witness:
  "t2t (sample_glovar {} {}) (sample_lib (Inr []) (Inr []) (Inr [])) (str '' a'' @ [0]) False False False
     = str '' a'' @ [0]"
  by (rule t2t_flags_off_identity)

section \<open>Properties of entity extraction\<close>

lemma unit_value: "c mod 256 + 256 * (c div 256) = (c::nat)"
  by simp

lemma encode_append:
  "utf_16_le_encode (xs @ ys) =
     (case utf_16_le_encode xs of
        Inl e \<Rightarrow> Inl UnicodeEncodeError
      | Inr a \<Rightarrow> (case utf_16_le_encode ys of Inl e \<Rightarrow> Inl e | Inr b \<Rightarrow> Inr (a @ b)))"
  by (induction xs) (auto split: sum.splits)

lemma encode_length:
  "utf_16_le_encode xs = Inr b \<Longrightarrow> length b = 2 * utf_16_length xs"
  by (induction xs arbitrary: b)
     (auto simp: utf_16_length_def utf_16_units_def Let_def split: sum.splits if_splits)

lemma encode_bmp:
  "\<forall>c\<in>set s. c < 65536 \<and> (c < 55296 \<or> 57343 < c) \<Longrightarrow>
     utf_16_le_encode s = Inr (concat (map (\<lambda>c. [c mod 256, c div 256]) s))"
  by (induction s) (auto simp: utf_16_units_def)

lemma decode_bmp:
  "\<forall>c\<in>set s. c < 65536 \<and> (c < 55296 \<or> 57343 < c) \<Longrightarrow>
     utf_16_le_decode (concat (map (\<lambda>c. [c mod 256, c div 256]) s)) = Inr s"
  by (induction s) (auto simp: Let_def)

lemma decode_plain:
  "b0 + 256 * b1 < 55296 \<or> 57343 < b0 + 256 * b1 \<Longrightarrow>
     utf_16_le_decode (b0 # b1 # bs) =
       (case utf_16_le_decode bs of Inl e \<Rightarrow> Inl e | Inr cs \<Rightarrow> Inr ((b0 + 256 * b1) # cs))"
  by (auto simp: Let_def)

lemma decode_low:
  "56320 \<le> b0 + 256 * b1 \<Longrightarrow> b0 + 256 * b1 \<le> 57343 \<Longrightarrow>
     utf_16_le_decode (b0 # b1 # bs) = Inl UnicodeDecodeError"
  by (simp add: Let_def)

lemma decode_high_end:
  "55296 \<le> b0 + 256 * b1 \<Longrightarrow> b0 + 256 * b1 < 56320 \<Longrightarrow>
     utf_16_le_decode [b0, b1] = Inl UnicodeDecodeError"
  by (simp add: Let_def)

lemma decode_high_bad:
  "55296 \<le> b0 + 256 * b1 \<Longrightarrow> b0 + 256 * b1 < 56320 \<Longrightarrow>
   b2 + 256 * b3 < 56320 \<or> 57343 < b2 + 256 * b3 \<Longrightarrow>
     utf_16_le_decode (b0 # b1 # b2 # b3 # bs) = Inl UnicodeDecodeError"
  by (auto simp: Let_def)

lemma decode_pair:
  "55296 \<le> b0 + 256 * b1 \<Longrightarrow> b0 + 256 * b1 < 56320 \<Longrightarrow>
   56320 \<le> b2 + 256 * b3 \<Longrightarrow> b2 + 256 * b3 \<le> 57343 \<Longrightarrow>
     utf_16_le_decode (b0 # b1 # b2 # b3 # bs) =
       (case utf_16_le_decode bs of
          Inl e \<Rightarrow> Inl e
        | Inr cs \<Rightarrow>
            Inr ((65536 + (b0 + 256 * b1 - 55296) * 1024 + (b2 + 256 * b3 - 56320)) # cs))"
  by (auto simp: Let_def)

lemma isl_case_sum: "isl x \<Longrightarrow> isl (case x of Inl e \<Rightarrow> Inl e | Inr cs \<Rightarrow> Inr (f cs))"
  by (cases x) simp_all

lemma decode_ends_high:
  assumes h: "55296 \<le> h0 + 256 * h1" "h0 + 256 * h1 < 56320"
  shows "length xs = 2 * n \<Longrightarrow> isl (utf_16_le_decode (xs @ [h0, h1]))"
proof (induction n arbitrary: xs rule: less_induct)
  case (less n)
  show ?case
  proof (cases xs)
    case Nil
    then show ?thesis using h by (simp add: decode_high_end del: utf_16_le_decode.simps)
  next
    case (Cons b0 ys)
    with less.prems obtain b1 bs where xs: "xs = b0 # b1 # bs"
      by (cases ys) auto
    with less.prems have len: "length bs = 2 * (n - 1)" and n: "0 < n" by auto
    let ?u = "b0 + 256 * b1"
    consider (plain) "?u < 55296 \<or> 57343 < ?u" | (low) "56320 \<le> ?u" "?u \<le> 57343"
      | (high) "55296 \<le> ?u" "?u < 56320"
      by linarith
    then show ?thesis
    proof cases
      case plain
      have "isl (utf_16_le_decode (bs @ [h0, h1]))"
        using less.IH [of "n - 1" bs] len n by simp
      then show ?thesis
        unfolding xs append_Cons decode_plain [OF plain] by (rule isl_case_sum)
    next
      case low
      then show ?thesis unfolding xs append_Cons by (simp add: decode_low del: utf_16_le_decode.simps)
    next
      case high
      show ?thesis
      proof (cases bs)
        case Nil
        have "utf_16_le_decode (b0 # b1 # h0 # h1 # []) = Inl UnicodeDecodeError"
          using high h by (intro decode_high_bad) auto
        then show ?thesis unfolding xs Nil by simp
      next
        case (Cons b2 zs)
        with len obtain b3 bs' where bs: "bs = b2 # b3 # bs'"
          by (cases zs) auto
        with len have len': "length bs' = 2 * (n - 2)" and n2: "1 < n" by auto
        let ?v = "b2 + 256 * b3"
        show ?thesis
        proof (cases "56320 \<le> ?v \<and> ?v \<le> 57343")
          case True
          have "isl (utf_16_le_decode (bs' @ [h0, h1]))"
            using less.IH [of "n - 2" bs'] len' n2 by simp
          then show ?thesis
            unfolding xs bs append_Cons using True high
            by (simp add: decode_pair isl_case_sum del: utf_16_le_decode.simps)
        next
          case False
          then have "?v < 56320 \<or> 57343 < ?v" by linarith
          then show ?thesis
            unfolding xs bs append_Cons using high
            by (simp add: decode_high_bad del: utf_16_le_decode.simps)
        qed
      qed
    qed
  qed
qed

lemma astral_units:
  assumes "65536 \<le> c" and "c \<le> 1114111"
  shows "\<exists>h0 h1 l0 l1. utf_16_units c = [h0, h1, l0, l1]
           \<and> 55296 \<le> h0 + 256 * h1 \<and> h0 + 256 * h1 < 56320
           \<and> 56320 \<le> l0 + 256 * l1 \<and> l0 + 256 * l1 \<le> 57343"
proof -
  define v where "v = c - 65536"
  have v: "v div 1024 < 1024" "v mod 1024 < 1024" using assms by (auto simp: v_def)
  have "utf_16_units c =
          [(55296 + v div 1024) mod 256, (55296 + v div 1024) div 256,
           (56320 + v mod 1024) mod 256, (56320 + v mod 1024) div 256]"
    using assms by (simp add: utf_16_units_def v_def Let_def)
  moreover have "(55296 + v div 1024) mod 256 + 256 * ((55296 + v div 1024) div 256)
                   = 55296 + v div 1024" by (rule unit_value)
  moreover have "(56320 + v mod 1024) mod 256 + 256 * ((56320 + v mod 1024) div 256)
                   = 56320 + v mod 1024" by (rule unit_value)
  ultimately show ?thesis using v by (intro exI conjI) (assumption | simp)+
qed


lemma length_bmp_bytes: "length (concat (map (\<lambda>c. [c mod 256, c div 256]) s)) = 2 * length (s::nat list)"
  by (induction s) simp_all

text \<open>
  \<^bold>\<open>C9\<close>. A string \<open>s\<close> of Basic Multilingual Plane characters (code points below
  \<open>0x10000\<close> that are not surrogates, hence one UTF-16 unit each) has an encoding, and
  cutting the full span out of it (offset 0, length the number of code units) and
  decoding gives \<open>s\<close> back; so \<open>get_entity_text\<close> returns \<open>s\<close> for that entity on a
  message whose text is \<open>s\<close>.
\<close>

theorem entity_slice_roundtrip_bmp:
  assumes bmp: "\<forall>c\<in>set s. c < 65536 \<and> (c < 55296 \<or> 57343 < c)"
  shows "\<exists>bytes. utf_16_le_encode s = Inr bytes
           \<and> entity_slice s 0 (length bytes div 2) = Inr s
           \<and> (get_text g l message False True = s \<longrightarrow>
                get_entity_text g l message
                  (Some \<lparr>en_type = ty, en_offset = 0, en_length = length bytes div 2, en_url = u\<rparr>)
                = s)"
proof -
  define bytes where "bytes = concat (map (\<lambda>c. [c mod 256, c div 256]) s)"
  have enc: "utf_16_le_encode s = Inr bytes"
    unfolding bytes_def using bmp by (rule encode_bmp)
  have len: "length bytes div 2 = length s"
    by (simp add: bytes_def length_bmp_bytes)
  have "slice bytes (0 * 2) ((0 + length s) * 2) = bytes"
    by (simp add: slice_def bytes_def length_bmp_bytes)
  moreover have "utf_16_le_decode bytes = Inr s"
    unfolding bytes_def using bmp by (rule decode_bmp)
  ultimately have sl: "entity_slice s 0 (length bytes div 2) = Inr s"
    by (simp add: entity_slice_def enc len)
  have "get_entity_text g l message
          (Some \<lparr>en_type = ty, en_offset = 0, en_length = length bytes div 2, en_url = u\<rparr>) = s"
    if "get_text g l message False True = s"
    using that sl by (simp add: get_entity_text_def)
  with enc sl show ?thesis by blast
qed


text \<open>
  The theorem on a text of two Latin letters and one CJK ideograph.
\<close>

theorem entity_slice_roundtrip_bmp_witness:
  "entity_slice (str ''hi'' @ [20013]) 0 3 = Inr (str ''hi'' @ [20013])
   \<and> get_entity_text (sample_glovar {} {}) (sample_lib (Inr []) (Inr []) (Inr []))
       (Some (sample_message (str ''hi'' @ [20013])))
       (Some \<lparr>en_type = str ''url'', en_offset = 0, en_length = 3, en_url = None\<rparr>)
     = str ''hi'' @ [20013]"
proof -
  let ?s = "str ''hi'' @ [20013]"
  let ?g = "sample_glovar {} {}"
  let ?l = "sample_lib (Inr []) (Inr []) (Inr [])"
  have bmp: "\<forall>c\<in>set ?s. c < 65536 \<and> (c < 55296 \<or> 57343 < c)"
    by (simp add: str_def)
  have enc: "utf_16_le_encode ?s = Inr [104, 0, 105, 0, 45, 78]"
    by (simp add: str_def utf_16_units_def)
  have gt: "get_text ?g ?l (Some (sample_message ?s)) False True = ?s"
    by (simp add: get_text_def truthy_def t2t_defs sample_defs)
  from entity_slice_roundtrip_bmp [OF bmp, of ?g ?l "Some (sample_message ?s)" "str ''url''" None]
  show ?thesis using enc gt by (simp add: numeral_3_eq_3)
qed

text \<open>
  \<^bold>\<open>C8\<close>. If the text of the message contains a character \<open>c\<close> outside the Basic
  Multilingual Plane, after a prefix of \<open>n\<close> UTF-16 units, and the entity starts or
  ends between the two units of \<open>c\<close> (its offset is \<open>n + 1\<close>, or its offset plus its
  length is \<open>n + 1\<close>), then \<open>get_entity_text\<close> returns the empty string. It is a
  total function: the failure of the decoder is a value inside it.
\<close>

theorem get_entity_text_mid_surrogate:
  assumes gt: "get_text g l message False True = pre @ c # post"
    and astral: "65536 \<le> c"
    and cut: "en_offset en = utf_16_length pre + 1
              \<or> en_offset en + en_length en = utf_16_length pre + 1"
  shows "get_entity_text g l message (Some en) = []"
proof (cases "utf_16_le_encode (pre @ c # post)")
  case (Inl e)
  with gt show ?thesis by (simp add: get_entity_text_def entity_slice_def)
next
  case (Inr bytes)
  define n where "n = utf_16_length pre"
  define off where "off = en_offset en"
  define len where "len = en_length en"
  from Inr obtain bp bc where bp: "utf_16_le_encode pre = Inr bp"
    and bc: "utf_16_le_encode (c # post) = Inr bc" and bytes: "bytes = bp @ bc"
    by (auto simp: encode_append split: sum.splits)
  from bc obtain bq where c: "c \<le> 1114111" and bc': "bc = utf_16_units c @ bq"
    by (auto split: if_splits sum.splits)
  from astral_units [OF astral c] obtain h0 h1 l0 l1
    where units: "utf_16_units c = [h0, h1, l0, l1]"
      and hi: "55296 \<le> h0 + 256 * h1" "h0 + 256 * h1 < 56320"
      and lo: "56320 \<le> l0 + 256 * l1" "l0 + 256 * l1 \<le> 57343"
    by blast
  have lbp: "length bp = 2 * n" unfolding n_def using bp by (rule encode_length)
  have all: "bytes = bp @ h0 # h1 # l0 # l1 # bq" by (simp add: bytes bc' units)
  have bad: "slice bytes (off * 2) ((off + len) * 2) = []
             \<or> isl (utf_16_le_decode (slice bytes (off * 2) ((off + len) * 2)))"
  proof (cases "len = 0")
    case True
    then show ?thesis by (simp add: slice_def)
  next
    case False
    from cut have "off = n + 1 \<or> off + len = n + 1" by (simp add: off_def len_def n_def)
    then show ?thesis
    proof
      assume o: "off = n + 1"
      have "\<exists>rest. slice bytes (off * 2) ((off + len) * 2) = l0 # l1 # rest"
        using False by (simp add: slice_def all o lbp take_Cons')
      then show ?thesis using lo by (auto simp: decode_low simp del: utf_16_le_decode.simps)
    next
      assume o: "off + len = n + 1"
      with False have le: "off \<le> n" by simp
      have "slice bytes (off * 2) ((off + len) * 2) = drop (2 * off) bp @ [h0, h1]"
        using le o by (simp add: slice_def all lbp mult.commute)
      moreover have "length (drop (2 * off) bp) = 2 * (n - off)"
        by (simp add: lbp algebra_simps)
      ultimately show ?thesis using decode_ends_high [OF hi] by simp
    qed
  qed
  show ?thesis
  proof (cases "pre @ c # post = []")
    case True
    then show ?thesis by simp
  next
    case False
    from bad show ?thesis
    proof
      assume "slice bytes (off * 2) ((off + len) * 2) = []"
      then show ?thesis
        using gt Inr by (simp add: get_entity_text_def entity_slice_def off_def len_def)
    next
      assume "isl (utf_16_le_decode (slice bytes (off * 2) ((off + len) * 2)))"
      then show ?thesis
        using gt Inr
        by (auto simp: get_entity_text_def entity_slice_def off_def len_def isl_def)
    qed
  qed
qed


text \<open>
  The theorem on the text \<open>h\<close>, U+1F600, \<open>i\<close> (four UTF-16 units): an entity that
  starts at unit 2 and one that ends after unit 1 both cut the surrogate pair.
\<close>

theorem get_entity_text_mid_surrogate_witness:
  "get_entity_text (sample_glovar {} {}) (sample_lib (Inr []) (Inr []) (Inr []))
     (Some (sample_message [104, 128512, 105]))
     (Some \<lparr>en_type = str ''url'', en_offset = 2, en_length = 2, en_url = None\<rparr>) = []
   \<and> get_entity_text (sample_glovar {} {}) (sample_lib (Inr []) (Inr []) (Inr []))
     (Some (sample_message [104, 128512, 105]))
     (Some \<lparr>en_type = str ''url'', en_offset = 0, en_length = 2, en_url = None\<rparr>) = []"
proof -
  let ?g = "sample_glovar {} {}"
  let ?l = "sample_lib (Inr []) (Inr []) (Inr [])"
  let ?m = "Some (sample_message [104, 128512, 105])"
  have gt: "get_text ?g ?l ?m False True = [104] @ 128512 # [105]"
    by (simp add: get_text_def truthy_def t2t_defs sample_defs)
  have astral: "65536 \<le> (128512::nat)" by simp
  have n: "utf_16_length [104] = 1" by (simp add: utf_16_length_def)
  have c1: "en_offset \<lparr>en_type = str ''url'', en_offset = 2, en_length = 2, en_url = None\<rparr>
              = utf_16_length [104] + 1
            \<or> en_offset \<lparr>en_type = str ''url'', en_offset = 2, en_length = 2, en_url = None\<rparr>
              + en_length \<lparr>en_type = str ''url'', en_offset = 2, en_length = 2, en_url = None\<rparr>
              = utf_16_length [104] + 1"
    by (simp add: n)
  have c2: "en_offset \<lparr>en_type = str ''url'', en_offset = 0, en_length = 2, en_url = None\<rparr>
              = utf_16_length [104] + 1
            \<or> en_offset \<lparr>en_type = str ''url'', en_offset = 0, en_length = 2, en_url = None\<rparr>
              + en_length \<lparr>en_type = str ''url'', en_offset = 0, en_length = 2, en_url = None\<rparr>
              = utf_16_length [104] + 1"
    by (simp add: n)
  show ?thesis
    using get_entity_text_mid_surrogate [OF gt astral c1]
          get_entity_text_mid_surrogate [OF gt astral c2]
    by simp
qed

section \<open>Properties of the report parser\<close>

lemma record_loop_last:
  "record_loop g l rec lines k =
     (case filter (\<lambda>e. fst e = k) (record_entries g l lines) of
        [] \<Rightarrow> rec k
      | e # es \<Rightarrow> Some (snd (last (e # es))))"
proof (induction lines arbitrary: rec)
  case Nil
  show ?case by simp
next
  case (Cons r rs)
  show ?case
  proof (cases "record_line g l r")
    case (Inl e)
    then show ?thesis by simp
  next
    case (Inr kv)
    obtain t v where kv: "kv = (t, v)" by (cases kv)
    have step: "record_loop g l rec (r # rs) k = record_loop g l (rec(t \<mapsto> v)) rs k"
      using Inr kv by simp
    have ent: "record_entries g l (r # rs) = (t, v) # record_entries g l rs"
      using Inr kv by simp
    have ih: "record_loop g l (rec(t \<mapsto> v)) rs k =
                (case filter (\<lambda>e. fst e = k) (record_entries g l rs) of
                   [] \<Rightarrow> (rec(t \<mapsto> v)) k
                 | e # es \<Rightarrow> Some (snd (last (e # es))))"
      by (rule Cons.IH)
    show ?thesis unfolding step ih ent
      by (cases "filter (\<lambda>e. fst e = k) (record_entries g l rs)") auto
  qed
qed

lemma record_type_of_range:
  "record_type_of g l r tbl = Inr t \<Longrightarrow> t = str ''unknown'' \<or> t \<in> str ` snd ` set tbl"
  by (induction tbl) (auto split: sum.splits if_splits)

lemma record_line_key:
  assumes "record_line g l r = Inr (t, v)"
  shows "t \<in> str ` set record_keys"
proof -
  from assms obtain t' where "record_type_of g l r record_labels = Inr t'" and "t' = t"
    by (auto simp: record_line_def split: sum.splits)
  then have "t = str ''unknown'' \<or> t \<in> str ` snd ` set record_labels"
    using record_type_of_range by blast
  moreover have "snd ` set record_labels \<subseteq> set record_keys"
    by (simp add: record_labels_def record_keys_def)
  moreover have "''unknown'' \<in> set record_keys"
    by (simp add: record_keys_def)
  ultimately show ?thesis by blast
qed

lemma record_loop_dom:
  "str ` set record_keys \<subseteq> dom rec \<Longrightarrow> dom (record_loop g l rec lines) = dom rec"
proof (induction lines arbitrary: rec)
  case Nil
  show ?case by simp
next
  case (Cons r rs)
  show ?case
  proof (cases "record_line g l r")
    case (Inl e)
    then show ?thesis by simp
  next
    case (Inr kv)
    obtain t v where kv: "kv = (t, v)" by (cases kv)
    from Inr kv have "t \<in> str ` set record_keys" using record_line_key by blast
    with Cons.prems have t: "t \<in> dom rec" by blast
    then have d: "dom (rec(t \<mapsto> v)) = dom rec" by auto
    with Cons.prems have "str ` set record_keys \<subseteq> dom (rec(t \<mapsto> v))" by simp
    then have "dom (record_loop g l (rec(t \<mapsto> v)) rs) = dom (rec(t \<mapsto> v))"
      by (rule Cons.IH)
    also have "\<dots> = dom rec" by (rule d)
    finally have "dom (record_loop g l (rec(t \<mapsto> v)) rs) = dom rec" .
    moreover have "record_loop g l rec (r # rs) = record_loop g l (rec(t \<mapsto> v)) rs"
      using Inr kv by simp
    ultimately show ?thesis by simp
  qed
qed

lemma dom_record_init: "dom record_init = str ` set record_keys"
  by (simp add: record_init_def dom_map_of_conv_image_fst image_image)

text \<open>
  \<^bold>\<open>C6\<close> (as amended). Every key of the returned mapping, \<open>unknown\<close> included, holds
  one value: the value assigned for the last line classified under it, or the empty
  string when no line was. Lines that match no label overwrite one another under
  \<open>unknown\<close>, they are not accumulated; the value kept is the last piece of the line
  after splitting at the separator. The set of keys is always the fixed one.
\<close>

theorem get_report_record_last_wins:
  "get_report_record g l message k =
     (case filter (\<lambda>e. fst e = k)
             (record_entries g l
                (if truthy (m_text message) then py_split_from [10] [] (the (m_text message))
                 else [])) of
        [] \<Rightarrow> record_init k
      | e # es \<Rightarrow> Some (snd (last (e # es))))
   \<and> dom (get_report_record g l message) = str ` set record_keys"
proof -
  have "dom (get_report_record g l message) = str ` set record_keys"
    using record_loop_dom [of record_init] dom_record_init
    by (simp add: get_report_record_def)
  moreover have "get_report_record g l message k =
     (case filter (\<lambda>e. fst e = k)
             (record_entries g l
                (if truthy (m_text message) then py_split_from [10] [] (the (m_text message))
                 else [])) of
        [] \<Rightarrow> record_init k
      | e # es \<Rightarrow> Some (snd (last (e # es))))"
    by (simp add: get_report_record_def record_loop_last)
  ultimately show ?thesis by simp
qed


text \<open>
  The theorem on a report with two \<open>Level\<close> lines: the second one wins.
\<close>

theorem get_report_record_last_wins_witness:
  "get_report_record (sample_glovar {} {}) (sample_lib (Inr []) (Inr []) (Inr []))
     (sample_message (str ''Level: 3'' @ [10] @ str ''Level: 4'')) (str ''level'') = Some (str ''4'')
   \<and> dom (get_report_record (sample_glovar {} {}) (sample_lib (Inr []) (Inr []) (Inr []))
           (sample_message (str ''Level: 3'' @ [10] @ str ''Level: 4'')))
       = str ` set record_keys"
  using get_report_record_last_wins
          [of "sample_glovar {} {}" "sample_lib (Inr []) (Inr []) (Inr [])"
              "sample_message (str ''Level: 3'' @ [10] @ str ''Level: 4'')" "str ''level''"]
  by (simp add: record_line_def py_split_def lang_def record_labels_def truthy_def sample_defs)

text \<open>
  The claim as first stated fails: in the report with the two unmatched lines \<open>foo\<close>
  and \<open>bar\<close>, the key \<open>unknown\<close> holds \<open>bar\<close> only.
\<close>

theorem get_report_record_unknown_counterexample:
  "record_type_of (sample_glovar {} {}) (sample_lib (Inr []) (Inr []) (Inr [])) (str ''foo'')
     record_labels = Inr (str ''unknown'')
   \<and> record_type_of (sample_glovar {} {}) (sample_lib (Inr []) (Inr []) (Inr [])) (str ''bar'')
     record_labels = Inr (str ''unknown'')
   \<and> get_report_record (sample_glovar {} {}) (sample_lib (Inr []) (Inr []) (Inr []))
       (sample_message (str ''foo'' @ [10] @ str ''bar'')) (str ''unknown'') = Some (str ''bar'')"
  by (simp add: record_defs sample_defs)

end
